theory Spec2Isabelle
  imports Complex_Main
begin

section \<open>Data model of \<^verbatim>\<open>SpringValue.ts\<close>\<close>

text \<open>
  The numbers of the program are JavaScript Numbers.  The model does not fix what they
  are: \<open>'n\<close> is the type of Numbers, and every operation that the source performs on
  them is a field of the record \<open>arith\<close>, which the functions below take as their
  argument \<open>A\<close>.  So a sum may round, a quotient by zero may be an infinity or \<^verbatim>\<open>NaN\<close>,
  and \<^verbatim>\<open>NaN\<close> compares as the engine says.  Every theorem about the integrator holds for
  every such record; the examples use \<open>ideal\<close>, the arithmetic of the real numbers.
  Where the source would compute with \<^verbatim>\<open>undefined\<close> the functions return \<open>None\<close>.
\<close>

record 'n arith =
  n_lit :: "rat \<Rightarrow> 'n"
  n_add :: "'n \<Rightarrow> 'n \<Rightarrow> 'n"
  n_sub :: "'n \<Rightarrow> 'n \<Rightarrow> 'n"
  n_mul :: "'n \<Rightarrow> 'n \<Rightarrow> 'n"
  n_div :: "'n \<Rightarrow> 'n \<Rightarrow> 'n"
  n_neg :: "'n \<Rightarrow> 'n"
  n_abs :: "'n \<Rightarrow> 'n"
  n_min :: "'n \<Rightarrow> 'n \<Rightarrow> 'n"
  n_exp :: "'n \<Rightarrow> 'n"
  n_ceil :: "'n \<Rightarrow> 'n"
  n_round :: "'n \<Rightarrow> 'n"
  n_lt :: "'n \<Rightarrow> 'n \<Rightarrow> bool"
  n_le :: "'n \<Rightarrow> 'n \<Rightarrow> bool"
  n_eq :: "'n \<Rightarrow> 'n \<Rightarrow> bool"
  n_isNaN :: "'n \<Rightarrow> bool"
  n_truthy :: "'n \<Rightarrow> bool"
  n_loop :: "'n \<Rightarrow> nat option"

text \<open>
  \<open>n_lit\<close> is the Number that a decimal literal of the source denotes; \<open>n_add\<close>,
  \<open>n_sub\<close>, \<open>n_mul\<close>, \<open>n_div\<close> and \<open>n_neg\<close> are \<^verbatim>\<open>+\<close>, \<^verbatim>\<open>-\<close>, \<^verbatim>\<open>*\<close>, \<^verbatim>\<open>/\<close> and unary
  \<^verbatim>\<open>-\<close>; \<open>n_abs\<close>, \<open>n_min\<close>, \<open>n_exp\<close>, \<open>n_ceil\<close> and \<open>n_round\<close> are the functions of
  \<^verbatim>\<open>Math\<close>; \<open>n_lt\<close>, \<open>n_le\<close> and \<open>n_eq\<close> are \<^verbatim>\<open><\<close>, \<^verbatim>\<open><=\<close> and \<^verbatim>\<open>===\<close> (\<^verbatim>\<open>a > b\<close> is
  written \<open>n_lt A b a\<close>); \<open>n_isNaN\<close> is \<^verbatim>\<open>Number.isNaN\<close>; \<open>n_truthy\<close> is the truth value
  of a Number in a condition.  \<open>n_loop b\<close> is the number of rounds of
  \<^verbatim>\<open>for (let n = 0; n < b; ++n)\<close> when no round leaves the loop, and \<open>None\<close> when that loop
  has no last round.
\<close>

text \<open>The arithmetic of the real numbers, where nothing rounds and nothing is \<^verbatim>\<open>NaN\<close>.\<close>

definition ideal :: "real arith" where
  "ideal =
     \<lparr>n_lit = of_rat, n_add = (+), n_sub = (-), n_mul = (*), n_div = (/),
      n_neg = uminus, n_abs = abs, n_min = min, n_exp = exp,
      n_ceil = (\<lambda>x. of_int \<lceil>x\<rceil>), n_round = (\<lambda>x. of_int \<lfloor>x + 1 / 2\<rfloor>),
      n_lt = (<), n_le = (\<le>), n_eq = (=), n_isNaN = (\<lambda>x. False),
      n_truthy = (\<lambda>x. x \<noteq> 0), n_loop = (\<lambda>x. Some (nat \<lceil>x\<rceil>))\<rparr>"

datatype 'n decay = DecayUndef | DecayBool bool | DecayNum 'n

datatype 'n velocity = VelNum 'n | VelArr "'n list"

record 'n config =
  tension :: 'n
  friction :: 'n
  mass :: 'n
  velocity :: "'n velocity"
  clamp :: bool
  bounce :: "'n option"
  duration :: "'n option"
  easing :: "'n \<Rightarrow> 'n"
  decay :: "'n decay"
  precision :: "'n option"
  restVelocity :: "'n option"
  round_step :: "'n option"
  progress :: "'n option"

text \<open>A scalar held by one \<^verbatim>\<open>AnimatedValue\<close>: a number, or a string that cannot be animated.\<close>

datatype 'n scalar = SNum 'n | SStr string

datatype nkind = NValue | NString

text \<open>
  One \<^verbatim>\<open>AnimatedValue\<close> (\<open>NValue\<close>) or \<^verbatim>\<open>AnimatedString\<close> (\<open>NString\<close>) object.  An
  \<^verbatim>\<open>AnimatedString\<close> animates its numeric \<open>nvalue\<close> from 0 to 1 and keeps the two strings
  it interpolates between in \<open>noutput\<close>; \<open>nstring\<close> is its cached \<^verbatim>\<open>_string\<close>.
\<close>

record 'n anode =
  kind :: nkind
  nvalue :: "'n scalar"
  nstring :: "string option"
  noutput :: "string \<times> string"
  lastPosition :: 'n
  lastVelocity :: "'n option"
  elapsedTime :: 'n
  v0 :: "'n option"
  ndone :: bool

section \<open>The integrator: one channel of \<^verbatim>\<open>advance\<close>\<close>

text \<open>The truth value of an optional number: \<^verbatim>\<open>undefined\<close> is falsy.\<close>

fun truthy_num :: "'n arith \<Rightarrow> 'n option \<Rightarrow> bool" where
  "truthy_num A None = False"
| "truthy_num A (Some x) = n_truthy A x"

text \<open>\<^verbatim>\<open>a || b\<close> on an optional number.\<close>

fun or_else :: "'n arith \<Rightarrow> 'n option \<Rightarrow> 'n \<Rightarrow> 'n" where
  "or_else A None d = d"
| "or_else A (Some x) d = (if n_truthy A x then x else d)"

fun decay_truthy :: "'n arith \<Rightarrow> 'n decay \<Rightarrow> bool" where
  "decay_truthy A DecayUndef = False"
| "decay_truthy A (DecayBool b) = b"
| "decay_truthy A (DecayNum d) = n_truthy A d"

text \<open>\<^verbatim>\<open>config.decay === true ? 0.998 : config.decay\<close>, read only when the decay is truthy.\<close>

fun decay_rate :: "'n arith \<Rightarrow> 'n decay \<Rightarrow> 'n" where
  "decay_rate A (DecayNum d) = d"
| "decay_rate A _ = n_lit A (998 / 1000)"

text \<open>\<^verbatim>\<open>is.arr(config.velocity) ? config.velocity[i] : config.velocity\<close>; an index past the
  end of the array reads \<^verbatim>\<open>undefined\<close>.\<close>

fun velocity_at :: "'n velocity \<Rightarrow> nat \<Rightarrow> 'n option" where
  "velocity_at (VelNum v) i = Some v"
| "velocity_at (VelArr vs) i = (if i < length vs then Some (vs ! i) else None)"

text \<open>\<^verbatim>\<open>===\<close> on the scalars of a node.\<close>

fun scalar_eq :: "'n arith \<Rightarrow> 'n scalar \<Rightarrow> 'n scalar \<Rightarrow> bool" where
  "scalar_eq A (SNum x) (SNum y) = n_eq A x y"
| "scalar_eq A (SStr a) (SStr b) = (a = b)"
| "scalar_eq A _ _ = False"

text \<open>
  Modelled from the spec: \<^verbatim>\<open>AnimatedValue.setValue(value, step)\<close> and
  \<^verbatim>\<open>AnimatedString.setValue(value)\<close> of the \<^verbatim>\<open>animated\<close> package are not under
  \<^verbatim>\<open>src/\<close>.  The channel's position is written into the node; the result says whether the
  visible value changed.  A numeric value updates \<open>lastPosition\<close> and is rounded to a
  multiple of \<open>step\<close> when one is given; an \<^verbatim>\<open>AnimatedString\<close> ignores the step.
\<close>

fun setValue_num :: "'n arith \<Rightarrow> 'n anode \<Rightarrow> 'n \<Rightarrow> 'n option \<Rightarrow> 'n anode \<times> bool" where
  "setValue_num A n v step =
     (let n1 = n\<lparr>lastPosition := v\<rparr>;
          v' = (if truthy_num A step
                then n_mul A (n_round A (n_div A v (the step))) (the step) else v);
          n2 = (if truthy_num A step \<and> ndone n then n1\<lparr>lastPosition := v'\<rparr> else n1)
      in if scalar_eq A (nvalue n2) (SNum v') then (n2, False)
         else (n2\<lparr>nvalue := SNum v'\<rparr>, True))"

fun setValue :: "'n arith \<Rightarrow> 'n anode \<Rightarrow> 'n scalar \<Rightarrow> 'n option \<Rightarrow> 'n anode \<times> bool" where
  "setValue A n (SNum v) step =
     (case kind n of
        NValue \<Rightarrow> setValue_num A n v step
      | NString \<Rightarrow>
          (let (n', ch) = setValue_num A n v None
           in if ch then (n'\<lparr>nstring := None\<rparr>, True) else (n', False)))"
| "setValue A n (SStr s) step =
     (case kind n of
        NValue \<Rightarrow>
          (if scalar_eq A (nvalue n) (SStr s) then (n, False) else (n\<lparr>nvalue := SStr s\<rparr>, True))
      | NString \<Rightarrow> (n\<lparr>nstring := Some s, nvalue := SNum (n_lit A 1)\<rparr>, True))"

text \<open>The bounce handling at the head of a sub-step (only when \<^verbatim>\<open>canBounce\<close>).\<close>

definition bounce_adjust ::
  "'n arith \<Rightarrow> 'n option \<Rightarrow> bool \<Rightarrow> 'n \<Rightarrow> 'n \<times> 'n \<Rightarrow> 'n \<times> 'n" where
  "bounce_adjust A bf growing to pv =
     (case bf of
        None \<Rightarrow> pv
      | Some b \<Rightarrow>
          (let (position, vel) = pv;
               isBouncing = (n_eq A position to \<or> (n_lt A to position = growing))
           in if isBouncing then (to, n_mul A (n_neg A vel) b) else (position, vel)))"

text \<open>The force computation and the two updates that end a sub-step, with
  \<^verbatim>\<open>step = 1\<close>.\<close>

definition euler_step :: "'n arith \<Rightarrow> 'n config \<Rightarrow> 'n \<Rightarrow> 'n \<times> 'n \<Rightarrow> 'n \<times> 'n" where
  "euler_step A cfg to pv =
     (let (position, vel) = pv;
          step = n_lit A 1;
          springForce = n_mul A (n_mul A (n_neg A (tension cfg)) (n_lit A (1 / 1000000)))
                          (n_sub A position to);
          dampingForce = n_mul A (n_mul A (n_neg A (friction cfg)) (n_lit A (1 / 1000))) vel;
          acceleration = n_div A (n_add A springForce dampingForce) (mass cfg);
          vel' = n_add A vel (n_mul A acceleration step);
          position' = n_add A position (n_mul A vel' step)
      in (position', vel'))"


text \<open>One round of the loop that does not leave it: the bounce handling, then the step.\<close>

definition substep ::
  "'n arith \<Rightarrow> 'n config \<Rightarrow> 'n \<Rightarrow> 'n option \<Rightarrow> bool \<Rightarrow> 'n \<times> 'n \<Rightarrow> 'n \<times> 'n" where
  "substep A cfg to bf growing pv = euler_step A cfg to (bounce_adjust A bf growing to pv)"

text \<open>
  The \<^verbatim>\<open>for\<close> loop of the spring branch, \<open>n\<close> rounds left.  The result is
  (position, velocity, finished): \<open>finished\<close> is true exactly when the loop left through
  its \<^verbatim>\<open>break\<close>.
\<close>

fun spring_loop ::
  "'n arith \<Rightarrow> 'n config \<Rightarrow> 'n \<Rightarrow> 'n \<Rightarrow> 'n \<Rightarrow> 'n option \<Rightarrow> bool \<Rightarrow> nat \<Rightarrow> 'n \<times> 'n
     \<Rightarrow> 'n \<times> 'n \<times> bool"
where
  "spring_loop A cfg to prec restVel bf growing 0 pv = (fst pv, snd pv, False)"
| "spring_loop A cfg to prec restVel bf growing (Suc n) pv =
     (let isMoving = n_lt A restVel (n_abs A (snd pv))
      in if \<not> isMoving \<and> n_le A (n_abs A (n_sub A to (fst pv))) prec
         then (fst pv, snd pv, True)
         else spring_loop A cfg to prec restVel bf growing n (substep A cfg to bf growing pv))"

text \<open>The three motion models.  Each returns (position, velocity, finished).\<close>

definition duration_branch ::
  "'n arith \<Rightarrow> 'n config \<Rightarrow> 'n \<Rightarrow> 'n \<Rightarrow> 'n \<Rightarrow> 'n \<Rightarrow> 'n \<Rightarrow> 'n \<Rightarrow> 'n \<times> 'n \<times> bool" where
  "duration_branch A cfg d elapsed dt from to lastPos =
     (let p0 = or_else A (progress cfg) (n_lit A 0);
          p = (if n_le A d (n_lit A 0) then n_lit A 1
               else n_add A p0 (n_mul A (n_sub A (n_lit A 1) p0)
                                   (n_min A (n_lit A 1) (n_div A elapsed d))));
          position = n_add A from (n_mul A (easing cfg p) (n_sub A to from));
          vel = n_div A (n_sub A position lastPos) dt
      in (position, vel, n_eq A p (n_lit A 1)))"

definition decay_branch ::
  "'n arith \<Rightarrow> 'n config \<Rightarrow> 'n \<Rightarrow> 'n \<Rightarrow> 'n \<Rightarrow> 'n \<Rightarrow> 'n \<times> 'n \<times> bool" where
  "decay_branch A cfg elapsed from seed lastPos =
     (let dr = decay_rate A (decay cfg);
          e = n_exp A (n_mul A (n_neg A (n_sub A (n_lit A 1) dr)) elapsed);
          position = n_add A from
                       (n_mul A (n_div A seed (n_sub A (n_lit A 1) dr)) (n_sub A (n_lit A 1) e));
          finished = n_lt A (n_abs A (n_sub A lastPos position)) (n_lit A (1 / 10));
          vel = n_mul A seed e
      in (position, vel, finished))"

definition default_precision :: "'n arith \<Rightarrow> 'n config \<Rightarrow> 'n \<Rightarrow> 'n \<Rightarrow> 'n" where
  "default_precision A cfg from to =
     or_else A (precision cfg)
       (if n_eq A from to then n_lit A (5 / 1000)
        else n_min A (n_lit A 1) (n_mul A (n_abs A (n_sub A to from)) (n_lit A (1 / 1000))))"

definition default_restVelocity :: "'n arith \<Rightarrow> 'n config \<Rightarrow> 'n \<Rightarrow> 'n \<Rightarrow> 'n" where
  "default_restVelocity A cfg from to =
     or_else A (restVelocity cfg) (n_div A (default_precision A cfg from to) (n_lit A 10))"

text \<open>\<^verbatim>\<open>config.clamp ? 0 : config.bounce\<close>; bouncing is possible when this is defined.\<close>

definition bounceFactor :: "'n arith \<Rightarrow> 'n config \<Rightarrow> 'n option" where
  "bounceFactor A cfg = (if clamp cfg then Some (n_lit A 0) else bounce cfg)"

text \<open>\<^verbatim>\<open>from == to ? node.v0 > 0 : from < to\<close>; an undefined seed is not greater than 0.\<close>

definition isGrowing :: "'n arith \<Rightarrow> 'n \<Rightarrow> 'n \<Rightarrow> 'n option \<Rightarrow> bool" where
  "isGrowing A from to seed =
     (if n_eq A from to then (case seed of Some v \<Rightarrow> n_lt A (n_lit A 0) v | None \<Rightarrow> False)
      else n_lt A from to)"

text \<open>The number of rounds that the loop header allows: \<^verbatim>\<open>Math.ceil(dt / step)\<close> with
  \<^verbatim>\<open>step = 1\<close>.\<close>

definition numSteps :: "'n arith \<Rightarrow> 'n \<Rightarrow> nat option" where
  "numSteps A dt = n_loop A (n_ceil A (n_div A dt (n_lit A 1)))"

text \<open>The spring branch; \<open>None\<close> when the loop header sets no bound.\<close>

definition spring_branch ::
  "'n arith \<Rightarrow> 'n config \<Rightarrow> 'n \<Rightarrow> 'n \<Rightarrow> 'n \<Rightarrow> 'n \<Rightarrow> 'n \<Rightarrow> 'n option
     \<Rightarrow> ('n \<times> 'n \<times> bool) option" where
  "spring_branch A cfg dt from to lastPos vel seed =
     (let prec = default_precision A cfg from to;
          restVel = default_restVelocity A cfg from to
      in case numSteps A dt of
           None \<Rightarrow> None
         | Some n \<Rightarrow>
             Some (spring_loop A cfg to prec restVel (bounceFactor A cfg)
                     (isGrowing A from to seed) n (lastPos, vel)))"

text \<open>The seed velocity of a channel,
  \<^verbatim>\<open>node.v0 != null ? node.v0 : (node.v0 = ...config.velocity...)\<close>.\<close>

definition seed_velocity :: "'n config \<Rightarrow> nat \<Rightarrow> 'n anode \<Rightarrow> 'n option" where
  "seed_velocity cfg i n =
     (case v0 n of Some v \<Rightarrow> Some v | None \<Rightarrow> velocity_at (velocity cfg) i)"

text \<open>The velocity a spring-mode step starts from,
  \<^verbatim>\<open>node.lastVelocity == null ? v0 : node.lastVelocity\<close>.\<close>

definition start_velocity :: "'n config \<Rightarrow> nat \<Rightarrow> 'n anode \<Rightarrow> 'n option" where
  "start_velocity cfg i n =
     (case lastVelocity n of Some v \<Rightarrow> Some v | None \<Rightarrow> seed_velocity cfg i n)"

text \<open>The motion model that the configuration selects, as (position, velocity,
  finished); \<open>None\<close> when a velocity seed that the branch needs is \<^verbatim>\<open>undefined\<close> or the
  loop has no bound.\<close>

definition motion ::
  "'n arith \<Rightarrow> 'n config \<Rightarrow> 'n \<Rightarrow> nat \<Rightarrow> 'n \<Rightarrow> 'n \<Rightarrow> 'n anode \<Rightarrow> ('n \<times> 'n \<times> bool) option" where
  "motion A cfg dt i to from nd =
     (let elapsed = n_add A (elapsedTime nd) dt
      in case duration cfg of
           Some d \<Rightarrow> Some (duration_branch A cfg d elapsed dt from to (lastPosition nd))
         | None \<Rightarrow>
             if decay_truthy A (decay cfg) then
               (case seed_velocity cfg i nd of
                  None \<Rightarrow> None
                | Some sv \<Rightarrow> Some (decay_branch A cfg elapsed from sv (lastPosition nd)))
             else
               (case start_velocity cfg i nd of
                  None \<Rightarrow> None
                | Some vel0 \<Rightarrow>
                    spring_branch A cfg dt from to (lastPosition nd) vel0
                      (seed_velocity cfg i nd)))"

text \<open>
  The body of \<^verbatim>\<open>anim.values.forEach((node, i) => ...)\<close> for a node that is not immediate
  and whose spring is not loose: from the update of \<^verbatim>\<open>elapsedTime\<close> to the
  \<^verbatim>\<open>Number.isNaN\<close> check, which makes a \<^verbatim>\<open>NaN\<close> position finish the channel.  \<open>to\<close> and
  \<open>from\<close> are numbers here.  The result is the node with its bookkeeping fields written,
  the position and \<open>finished\<close>.
\<close>

definition animate_channel ::
  "'n arith \<Rightarrow> 'n config \<Rightarrow> 'n \<Rightarrow> nat \<Rightarrow> 'n \<Rightarrow> 'n \<Rightarrow> 'n anode \<Rightarrow> ('n anode \<times> 'n \<times> bool) option"
where
  "animate_channel A cfg dt i to from nd =
     (case motion A cfg dt i to from nd of
        None \<Rightarrow> None
      | Some (position, vel, finished) \<Rightarrow>
          Some (nd\<lparr>elapsedTime := n_add A (elapsedTime nd) dt,
                    v0 := seed_velocity cfg i nd,
                    lastVelocity := Some vel\<rparr>,
                position, finished \<or> n_isNaN A position))"

text \<open>
  The tail of the \<^verbatim>\<open>forEach\<close> body: a parent channel that is not done keeps the child
  unfinished, the \<open>ndone\<close> flag is set, and the position is written with \<^verbatim>\<open>setValue\<close>.
  The result is (node, busy, changed): \<open>busy\<close> is the source's \<^verbatim>\<open>idle = false\<close>.
\<close>

definition settle_channel ::
  "'n arith \<Rightarrow> 'n config \<Rightarrow> bool option \<Rightarrow> 'n anode \<Rightarrow> 'n scalar \<Rightarrow> bool
     \<Rightarrow> 'n anode \<times> bool \<times> bool" where
  "settle_channel A cfg parent_done nd position finished =
     (let fin = (if parent_done = Some False then False else finished);
          n1 = (if fin then nd\<lparr>ndone := True\<rparr> else nd);
          (n2, ch) = setValue A n1 position (round_step cfg)
      in (n2, \<not> fin, ch))"

text \<open>
  One channel of \<^verbatim>\<open>advance\<close>.  \<open>to\<close> is the channel's goal as the source selects it
  (\<^verbatim>\<open>1\<close> for an \<^verbatim>\<open>AnimatedString\<close>, the parent's \<^verbatim>\<open>lastPosition\<close>, or
  \<^verbatim>\<open>toValues[i]\<close>), \<open>from\<close> is \<^verbatim>\<open>anim.fromValues[i]\<close>; either is \<open>None\<close> when the array
  has no such element.  \<open>parent_done\<close> is \<^verbatim>\<open>payload[i].done\<close> when the goal is the node of
  another value.  \<open>None\<close>: the source computes with \<^verbatim>\<open>undefined\<close> or with a string, or
  its loop has no bound.
\<close>

definition advance_channel ::
  "'n arith \<Rightarrow> 'n config \<Rightarrow> bool \<Rightarrow> 'n \<Rightarrow> nat \<Rightarrow> 'n scalar option \<Rightarrow> 'n option
     \<Rightarrow> bool option \<Rightarrow> 'n anode \<Rightarrow> ('n anode \<times> bool \<times> bool) option" where
  "advance_channel A cfg imm dt i to from parent_done nd =
     (if ndone nd then Some (nd, False, False)
      else if imm then
        (case to of
           None \<Rightarrow> None
         | Some t \<Rightarrow> Some (settle_channel A cfg parent_done nd t True))
      else if n_le A (tension cfg) (n_lit A 0) then Some (nd\<lparr>ndone := True\<rparr>, False, False)
      else
        (case (to, from) of
           (Some (SNum t), Some f) \<Rightarrow>
             (case animate_channel A cfg dt i t f nd of
                None \<Rightarrow> None
              | Some (n1, position, finished) \<Rightarrow>
                  Some (settle_channel A cfg parent_done n1 (SNum position) finished))
         | _ \<Rightarrow> None))"

section \<open>The state of one \<^verbatim>\<open>SpringValue\<close>\<close>

text \<open>
  The animated value \<^verbatim>\<open>T\<close>: a number, a string, or an array
  of numbers and strings.
\<close>

datatype 'n val = Num 'n | Str string | Arr "'n scalar list"

datatype ntype = AnimatedValue | AnimatedString | AnimatedArray

type_synonym ref = nat

text \<open>
  A \<^verbatim>\<open>FluidValue\<close> used as \<^verbatim>\<open>to\<close> or \<^verbatim>\<open>from\<close>: an object of the external value graph,
  known by its identity, by what its \<^verbatim>\<open>get()\<close> returns now, and, when it carries an
  \<^verbatim>\<open>Animated\<close> node of its own, by that node's type and the
  (\<^verbatim>\<open>lastPosition\<close>, \<^verbatim>\<open>done\<close>) of each node of its payload.
\<close>

record 'n fluid =
  fl_id :: nat
  fl_value :: "'n val option"
  fl_animated :: "(ntype \<times> ('n \<times> bool) list) option"

datatype 'n target = Und | Plain "'n val" | Fluid "'n fluid"

text \<open>The three shapes of an \<^verbatim>\<open>AnimationResult\<close>, each with the \<^verbatim>\<open>value\<close> it carries.\<close>

datatype 'n result =
    Noop "'n val option"
  | Finished "'n val option" bool
  | Cancelled "'n val option"

text \<open>
  Callbacks are opaque: a user's event prop is known by a number, the \<^verbatim>\<open>resolve\<close>
  function of an update by the update's \<^verbatim>\<open>callId\<close>.  Calling one is recorded in the log
  of the state; what the callback then does is outside the model.
\<close>

datatype handler = Prop nat | Resolver nat

text \<open>
  An entry of the \<^verbatim>\<open>onRest\<close> queue: \<^verbatim>\<open>noop\<close>, or the closure that
  \<^verbatim>\<open>checkFinishedOnRest\<close> builds around a handler and the \<^verbatim>\<open>animation.to\<close> of that moment.
\<close>

datatype 'n rest_fn = RNoop | RChecked handler "'n target"

datatype 'n event =
    CallOnProps nat
  | CallOnDelayEnd nat
  | CallOnStart nat
  | CallOnChange nat "'n val option"
  | CallOnPause nat
  | CallOnResume nat
  | Fire handler "'n result"
  | EmitChange "'n val option" bool
  | EmitIdle
  | FrameLoopStart
  | RunAsync nat

record 'n animation =
  changed :: bool
  anim_values :: "ref list"
  toValues :: "'n scalar list option"
  fromValues :: "'n list"
  anim_to :: "'n target"
  anim_from :: "'n target"
  anim_config :: "'n config"
  immediate :: bool
  onStart :: "nat option"
  onChange :: "nat option"
  onPause :: "nat option"
  onResume :: "nat option"
  onRest :: "'n rest_fn list"

text \<open>The \<^verbatim>\<open>Animated\<close> node of the value: its class and the objects of its payload.\<close>

datatype animated = AValue ref | AString ref | AArray "ref list"

text \<open>
  The fields of \<^verbatim>\<open>RunAsyncState\<close> that this file reads or that \<^verbatim>\<open>stopAsync\<close> writes.
  The timers and the two waiter sets are kept as the \<^verbatim>\<open>callId\<close>s that wait in them.
\<close>

record run_state =
  paused :: bool
  asyncTo :: "nat option"
  cancelId :: "nat option"
  timeouts :: "nat list"
  pauseQueue :: "nat list"
  resumeQueue :: "nat list"

text \<open>The event props and flags of \<^verbatim>\<open>SpringProps\<close> that can be defaults.\<close>

record default_props =
  d_immediate :: "bool option"
  d_onProps :: "nat option"
  d_onDelayEnd :: "nat option"
  d_onStart :: "nat option"
  d_onChange :: "nat option"
  d_onPause :: "nat option"
  d_onResume :: "nat option"
  d_onRest :: "nat option"

text \<open>
  The \<^verbatim>\<open>SpringValue\<close> object.  Node objects live in \<open>heap\<close>, because
  \<^verbatim>\<open>animation.values\<close> and the payload of the node are the same objects until the node
  is replaced.  The three bits of \<^verbatim>\<open>SpringPhase\<close> are three booleans.  \<open>frozen\<close> is
  \<^verbatim>\<open>Object.isFrozen(this)\<close>.  \<open>log\<close> records the calls that leave the object.
\<close>

record 'n spring =
  anim :: "'n animation"
  node :: "animated option"
  heap :: "ref \<Rightarrow> 'n anode"
  next_ref :: ref
  has_animated :: bool
  is_animating :: bool
  is_paused :: bool
  rstate :: run_state
  defaultProps :: default_props
  lastCallId :: nat
  lastToId :: nat
  frozen :: bool
  log :: "'n event list"

text \<open>The members of \<^verbatim>\<open>Globals\<close> that the file reads, and with them the arithmetic
  of the engine, so that every method can reach it.\<close>

record 'n globals =
  skipAnimation :: bool
  colorNames :: "string list"
  interpolate :: "string \<times> string \<Rightarrow> 'n \<Rightarrow> string"
  num :: "'n arith"

subsection \<open>Helpers of the \<^verbatim>\<open>shared\<close> and \<^verbatim>\<open>animated\<close> packages\<close>

definition is_digit :: "char \<Rightarrow> bool" where
  "is_digit c = (c \<in> set ''0123456789'')"

text \<open>Modelled from the spec: \<^verbatim>\<open>isAnimatedString\<close> (package \<^verbatim>\<open>shared\<close>), the strings that
  are an animatable value kind: those that start with \<^verbatim>\<open>#\<close>, hold a digit, or name a colour.\<close>

definition isAnimatedString :: "'n globals \<Rightarrow> string \<Rightarrow> bool" where
  "isAnimatedString G s =
     ((s \<noteq> [] \<and> hd s = CHR ''#'') \<or> list_ex is_digit s \<or> s \<in> set (colorNames G))"

fun getFluidValue :: "'n target \<Rightarrow> 'n val option" where
  "getFluidValue Und = None"
| "getFluidValue (Plain v) = Some v"
| "getFluidValue (Fluid f) = fl_value f"

text \<open>A value, or \<^verbatim>\<open>undefined\<close>, used where a \<^verbatim>\<open>to\<close> or \<^verbatim>\<open>from\<close> is expected.\<close>

fun target_of :: "'n val option \<Rightarrow> 'n target" where
  "target_of None = Und"
| "target_of (Some v) = Plain v"

fun getFluidConfig :: "'n target \<Rightarrow> 'n fluid option" where
  "getFluidConfig (Fluid f) = Some f"
| "getFluidConfig _ = None"

text \<open>Modelled from the spec: \<^verbatim>\<open>computeGoal\<close> (\<^verbatim>\<open>helpers\<close>) dereferences a composed value
  and passes an animatable string through the string interpolator.\<close>

fun computeGoal_scalar :: "'n globals \<Rightarrow> 'n scalar \<Rightarrow> 'n scalar" where
  "computeGoal_scalar G (SStr s) =
     (if isAnimatedString G s then SStr (interpolate G (s, s) (n_lit (num G) 1)) else SStr s)"
| "computeGoal_scalar G (SNum x) = SNum x"

fun computeGoal_val :: "'n globals \<Rightarrow> 'n val \<Rightarrow> 'n val" where
  "computeGoal_val G (Str s) =
     (if isAnimatedString G s then Str (interpolate G (s, s) (n_lit (num G) 1)) else Str s)"
| "computeGoal_val G (Arr xs) = Arr (map (computeGoal_scalar G) xs)"
| "computeGoal_val G (Num x) = Num x"

definition computeGoal :: "'n globals \<Rightarrow> 'n target \<Rightarrow> 'n val option" where
  "computeGoal G t = map_option (computeGoal_val G) (getFluidValue t)"

text \<open>\<^verbatim>\<open>isEqual\<close> on \<^verbatim>\<open>to\<close> and \<^verbatim>\<open>from\<close>: arrays by their elements, everything else by
  \<^verbatim>\<open>===\<close>, which for a \<^verbatim>\<open>FluidValue\<close> is the identity of the object.\<close>

fun val_eq :: "'n arith \<Rightarrow> 'n val \<Rightarrow> 'n val \<Rightarrow> bool" where
  "val_eq A (Num x) (Num y) = n_eq A x y"
| "val_eq A (Str a) (Str b) = (a = b)"
| "val_eq A (Arr xs) (Arr ys) = list_all2 (scalar_eq A) xs ys"
| "val_eq A _ _ = False"

fun isEqual :: "'n arith \<Rightarrow> 'n target \<Rightarrow> 'n target \<Rightarrow> bool" where
  "isEqual A Und Und = True"
| "isEqual A (Plain v) (Plain w) = val_eq A v w"
| "isEqual A (Fluid f) (Fluid g) = (fl_id f = fl_id g)"
| "isEqual A _ _ = False"

text \<open>\<^verbatim>\<open>isEqual\<close> on the \<^verbatim>\<open>decay\<close> and \<^verbatim>\<open>velocity\<close> of two configurations.\<close>

fun decay_eq :: "'n arith \<Rightarrow> 'n decay \<Rightarrow> 'n decay \<Rightarrow> bool" where
  "decay_eq A DecayUndef DecayUndef = True"
| "decay_eq A (DecayBool a) (DecayBool b) = (a = b)"
| "decay_eq A (DecayNum x) (DecayNum y) = n_eq A x y"
| "decay_eq A _ _ = False"

fun velocity_eq :: "'n arith \<Rightarrow> 'n velocity \<Rightarrow> 'n velocity \<Rightarrow> bool" where
  "velocity_eq A (VelNum x) (VelNum y) = n_eq A x y"
| "velocity_eq A (VelArr xs) (VelArr ys) = list_all2 (n_eq A) xs ys"
| "velocity_eq A _ _ = False"

fun getAnimatedType_val :: "'n globals \<Rightarrow> 'n val option \<Rightarrow> ntype" where
  "getAnimatedType_val G (Some (Arr xs)) = AnimatedArray"
| "getAnimatedType_val G (Some (Str s)) =
     (if isAnimatedString G s then AnimatedString else AnimatedValue)"
| "getAnimatedType_val G _ = AnimatedValue"

text \<open>\<^verbatim>\<open>getAnimatedType\<close>: the class of the node that the argument carries, else the class
  that fits the value.\<close>

fun getAnimatedType :: "'n globals \<Rightarrow> 'n target \<Rightarrow> ntype" where
  "getAnimatedType G (Fluid f) =
     (case fl_animated f of Some (t, _) \<Rightarrow> t | None \<Rightarrow> AnimatedValue)"
| "getAnimatedType G (Plain v) = getAnimatedType_val G (Some v)"
| "getAnimatedType G Und = AnimatedValue"

fun toArray :: "'n val option \<Rightarrow> 'n scalar list" where
  "toArray None = []"
| "toArray (Some (Num x)) = [SNum x]"
| "toArray (Some (Str s)) = [SStr s]"
| "toArray (Some (Arr xs)) = xs"

subsection \<open>Node objects\<close>

text \<open>
  Modelled from the spec: the classes \<^verbatim>\<open>AnimatedValue\<close>, \<^verbatim>\<open>AnimatedString\<close> and
  \<^verbatim>\<open>AnimatedArray\<close> of the \<^verbatim>\<open>animated\<close> package are not under \<^verbatim>\<open>src/\<close>.  They are the
  externally visible node representation: one node per channel, created done, holding
  the channel's physical state.  The fields that the source leaves \<^verbatim>\<open>undefined\<close> until
  \<^verbatim>\<open>reset()\<close> writes them (\<open>elapsedTime\<close>, and \<open>lastPosition\<close> for a string that cannot
  be animated) hold the Number 0 here.  Reading an \<^verbatim>\<open>AnimatedString\<close> does not write its
  cache in this model.
\<close>

definition new_value_node :: "'n arith \<Rightarrow> 'n scalar \<Rightarrow> 'n anode" where
  "new_value_node A x =
     \<lparr>kind = NValue, nvalue = x, nstring = None, noutput = ([], []),
      lastPosition = (case x of SNum r \<Rightarrow> r | SStr _ \<Rightarrow> n_lit A 0),
      lastVelocity = None, elapsedTime = n_lit A 0, v0 = None, ndone = True\<rparr>"

definition new_string_node :: "'n arith \<Rightarrow> string \<Rightarrow> 'n anode" where
  "new_string_node A s =
     \<lparr>kind = NString, nvalue = SNum (n_lit A 0), nstring = None, noutput = (s, s),
      lastPosition = n_lit A 0, lastVelocity = None, elapsedTime = n_lit A 0, v0 = None,
      ndone = True\<rparr>"

fun create_scalar :: "'n globals \<Rightarrow> 'n scalar \<Rightarrow> 'n anode" where
  "create_scalar G (SNum r) = new_value_node (num G) (SNum r)"
| "create_scalar G (SStr s) =
     (if isAnimatedString G s then new_string_node (num G) s
      else new_value_node (num G) (SStr s))"

definition alloc :: "'n anode \<Rightarrow> 'n spring \<Rightarrow> ref \<times> 'n spring" where
  "alloc n s = (next_ref s, s\<lparr>heap := (heap s)(next_ref s := n), next_ref := Suc (next_ref s)\<rparr>)"

fun alloc_all :: "'n anode list \<Rightarrow> 'n spring \<Rightarrow> ref list \<times> 'n spring" where
  "alloc_all [] s = ([], s)"
| "alloc_all (n # ns) s =
     (let (r, s1) = alloc n s; (rs, s2) = alloc_all ns s1 in (r # rs, s2))"

text \<open>\<^verbatim>\<open>setAnimated(this, nodeType.create(value))\<close>, with \<open>nodeType\<close> the type of \<open>value\<close>.\<close>

fun create_node :: "'n globals \<Rightarrow> 'n val \<Rightarrow> 'n spring \<Rightarrow> 'n spring" where
  "create_node G (Arr xs) s =
     (let (rs, s1) = alloc_all (map (create_scalar G) xs) s in s1\<lparr>node := Some (AArray rs)\<rparr>)"
| "create_node G (Num x) s =
     (let (r, s1) = alloc (new_value_node (num G) (SNum x)) s in s1\<lparr>node := Some (AValue r)\<rparr>)"
| "create_node G (Str str) s =
     (if isAnimatedString G str
      then (let (r, s1) = alloc (new_string_node (num G) str) s
            in s1\<lparr>node := Some (AString r)\<rparr>)
      else (let (r, s1) = alloc (new_value_node (num G) (SStr str)) s
            in s1\<lparr>node := Some (AValue r)\<rparr>))"

fun node_type :: "animated \<Rightarrow> ntype" where
  "node_type (AValue r) = AnimatedValue"
| "node_type (AString r) = AnimatedString"
| "node_type (AArray rs) = AnimatedArray"


text \<open>\<^verbatim>\<open>getValue()\<close> of one node object.\<close>

definition node_getValue :: "'n globals \<Rightarrow> 'n anode \<Rightarrow> 'n scalar" where
  "node_getValue G n =
     (case kind n of
        NValue \<Rightarrow> nvalue n
      | NString \<Rightarrow>
          (case nstring n of
             Some str \<Rightarrow> SStr str
           | None \<Rightarrow>
               SStr (interpolate G (noutput n)
                       (case nvalue n of SNum r \<Rightarrow> r | SStr _ \<Rightarrow> n_lit (num G) 0))))"

fun val_of_scalar :: "'n scalar \<Rightarrow> 'n val" where
  "val_of_scalar (SNum r) = Num r"
| "val_of_scalar (SStr str) = Str str"

fun scalar_of_val :: "'n val \<Rightarrow> 'n scalar list" where
  "scalar_of_val (Num r) = [SNum r]"
| "scalar_of_val (Str str) = [SStr str]"
| "scalar_of_val (Arr xs) = xs"

text \<open>\<^verbatim>\<open>FrameValue.get()\<close>: the value of the node, \<^verbatim>\<open>undefined\<close> without a node.\<close>

definition get :: "'n globals \<Rightarrow> 'n spring \<Rightarrow> 'n val option" where
  "get G s =
     (case node s of
        None \<Rightarrow> None
      | Some (AValue r) \<Rightarrow> Some (val_of_scalar (node_getValue G (heap s r)))
      | Some (AString r) \<Rightarrow> Some (val_of_scalar (node_getValue G (heap s r)))
      | Some (AArray rs) \<Rightarrow> Some (Arr (map (\<lambda>r. node_getValue G (heap s r)) rs)))"

text \<open>\<^verbatim>\<open>node.setValue(x)\<close> on each object of a payload, in order (no rounding step).\<close>

fun set_each :: "'n arith \<Rightarrow> ref list \<Rightarrow> 'n scalar list \<Rightarrow> 'n spring \<Rightarrow> 'n spring" where
  "set_each A (r # rs) (x # xs) s =
     set_each A rs xs (s\<lparr>heap := (heap s)(r := fst (setValue A (heap s r) x None))\<rparr>)"
| "set_each A _ _ s = s"

text \<open>\<^verbatim>\<open>oldNode.setValue(value)\<close> for a node of the same class as the value; an array of
  another length remakes the payload.\<close>

fun node_setValue :: "'n globals \<Rightarrow> animated \<Rightarrow> 'n val \<Rightarrow> 'n spring \<Rightarrow> 'n spring" where
  "node_setValue G (AArray rs) v s =
     (let xs = scalar_of_val v
      in if length xs = length rs then set_each (num G) rs xs s
         else (let (rs', s1) = alloc_all (map (create_scalar G) xs) s
               in s1\<lparr>node := Some (AArray rs')\<rparr>))"
| "node_setValue G (AValue r) v s = set_each (num G) [r] (scalar_of_val v) s"
| "node_setValue G (AString r) v s = set_each (num G) [r] (scalar_of_val v) s"

subsection \<open>Events\<close>

definition emit :: "'n event \<Rightarrow> 'n spring \<Rightarrow> 'n spring" where
  "emit e s = s\<lparr>log := log s @ [e]\<rparr>"

text \<open>\<^verbatim>\<open>callProp(f, ...)\<close> for an optional event prop.\<close>

fun callProp :: "nat option \<Rightarrow> (nat \<Rightarrow> 'n event) \<Rightarrow> 'n spring \<Rightarrow> 'n spring" where
  "callProp None mk s = s"
| "callProp (Some h) mk s = emit (mk h) s"

definition onStart_call :: "'n spring \<Rightarrow> 'n spring" where
  "onStart_call s =
     (if \<not> changed (anim s)
      then callProp (onStart (anim s)) CallOnStart (s\<lparr>anim := (anim s)\<lparr>changed := True\<rparr>\<rparr>)
      else s)"

definition onChange_call :: "'n val option \<Rightarrow> bool \<Rightarrow> 'n spring \<Rightarrow> 'n spring" where
  "onChange_call v idle s =
     (let s1 = (if \<not> idle then onStart_call s else s);
          s2 = callProp (onChange (anim s1)) (\<lambda>h. CallOnChange h v) s1
      in emit (EmitChange v idle) s2)"

text \<open>\<^verbatim>\<open>_set(arg, force)\<close>: update the current value from outside the frameloop.\<close>

definition set_value :: "'n globals \<Rightarrow> 'n target \<Rightarrow> bool \<Rightarrow> 'n spring \<Rightarrow> 'n spring" where
  "set_value G arg force s =
     (case getFluidValue arg of
        None \<Rightarrow> s
      | Some v \<Rightarrow>
          (let oldNode = node s;
               differs = (case get G s of Some w \<Rightarrow> \<not> val_eq (num G) v w | None \<Rightarrow> True)
           in if force \<or> oldNode = None \<or> differs then
                (let nodeType = getAnimatedType_val G (Some v);
                     s1 = (case oldNode of
                             None \<Rightarrow> create_node G v s
                           | Some nd \<Rightarrow>
                               if node_type nd \<noteq> nodeType then create_node G v s
                               else node_setValue G nd v s)
                 in if oldNode \<noteq> None then onChange_call (Some v) True s1 else s1)
              else s))"

text \<open>\<^verbatim>\<open>value === anim.to\<close> in \<^verbatim>\<open>_focus\<close>.  Two arrays are the same only when they are one
  object; the arrays that reach \<^verbatim>\<open>_focus\<close> here are fresh ones or differ in an element.\<close>

fun same_target :: "'n arith \<Rightarrow> 'n target \<Rightarrow> 'n target \<Rightarrow> bool" where
  "same_target A (Plain (Arr xs)) t = False"
| "same_target A t (Plain (Arr ys)) = False"
| "same_target A t t' = isEqual A t t'"

text \<open>\<^verbatim>\<open>_focus(value)\<close>.  The attach and detach calls into the value graph, made when
  the value has children, are outside the model.\<close>

definition focus :: "'n globals \<Rightarrow> 'n target \<Rightarrow> 'n spring \<Rightarrow> 'n spring" where
  "focus G t s =
     (if \<not> same_target (num G) t (anim_to (anim s)) then s\<lparr>anim := (anim s)\<lparr>anim_to := t\<rparr>\<rparr>
      else s)"

subsection \<open>Stopping, finishing and starting\<close>

text \<open>Calling one entry of the \<^verbatim>\<open>onRest\<close> queue with the argument \<open>cancel\<close>: the closure of
  \<^verbatim>\<open>checkFinishedOnRest\<close>.\<close>

fun call_rest :: "'n globals \<Rightarrow> bool \<Rightarrow> 'n rest_fn \<Rightarrow> 'n spring \<Rightarrow> 'n spring" where
  "call_rest G cancel RNoop s = s"
| "call_rest G cancel (RChecked h to) s =
     (if cancel then emit (Fire h (Cancelled (get G s))) s
      else
        (let goal = computeGoal G to;
             v = map_option (computeGoal_val G) (get G s);
             finished = isEqual (num G) (target_of v) (target_of goal)
         in emit (Fire h (Finished (get G s) finished)) s))"

fun call_rests :: "'n globals \<Rightarrow> bool \<Rightarrow> 'n rest_fn list \<Rightarrow> 'n spring \<Rightarrow> 'n spring" where
  "call_rests G cancel [] s = s"
| "call_rests G cancel (f # fs) s = call_rests G cancel fs (call_rest G cancel f s)"


fun mark_done :: "ref list \<Rightarrow> (ref \<Rightarrow> 'n anode) \<Rightarrow> (ref \<Rightarrow> 'n anode)" where
  "mark_done [] h = h"
| "mark_done (r # rs) h = mark_done rs (h(r := (h r)\<lparr>ndone := True\<rparr>))"

text \<open>\<^verbatim>\<open>_stop(cancel)\<close>: exit the frameloop and notify the \<^verbatim>\<open>onRest\<close> listeners.\<close>

definition stop_anim :: "'n globals \<Rightarrow> bool \<Rightarrow> 'n spring \<Rightarrow> 'n spring" where
  "stop_anim G cancel s =
     (if is_animating s then
        (let s1 = s\<lparr>is_animating := False\<rparr>;
             s2 = s1\<lparr>heap := mark_done (anim_values (anim s1)) (heap s1)\<rparr>;
             s3 = emit EmitIdle s2;
             onRestQueue = onRest (anim s3)
         in case onRestQueue of
              [] \<Rightarrow> s3
            | q0 # qs \<Rightarrow>
                (let s4 = s3\<lparr>anim := (anim s3)
                            \<lparr>onRest := [if toValues (anim s3) \<noteq> None then RNoop else q0]\<rparr>\<rparr>;
                     queue = (if \<not> changed (anim s4) then RNoop # qs else q0 # qs)
                 in call_rests G cancel queue s4))
      else s)"

text \<open>
  Modelled from the spec: \<^verbatim>\<open>stopAsync\<close> (\<^verbatim>\<open>runAsync\<close>) is not under \<^verbatim>\<open>src/\<close>.  It
  releases the pending timers and waiters of the value, ends the async \<^verbatim>\<open>to\<close>, and
  records the \<^verbatim>\<open>callId\<close> up to which pending updates are cancelled, when one is given.
\<close>

definition stopAsync :: "run_state \<Rightarrow> nat option \<Rightarrow> run_state" where
  "stopAsync st cid =
     st\<lparr>asyncTo := None, timeouts := [], pauseQueue := [], resumeQueue := [],
        cancelId := (case cid of Some c \<Rightarrow> Some c | None \<Rightarrow> cancelId st)\<rparr>"

text \<open>\<^verbatim>\<open>stop(cancel)\<close>; \<^verbatim>\<open>cancel && this._lastCallId\<close> is falsy when either is.\<close>

definition stop :: "'n globals \<Rightarrow> bool \<Rightarrow> 'n spring \<Rightarrow> 'n spring" where
  "stop G cancel s =
     (let cid = (if cancel \<and> lastCallId s \<noteq> 0 then Some (lastCallId s) else None);
          s1 = s\<lparr>rstate := stopAsync (rstate s) cid\<rparr>;
          s2 = focus G (target_of (get G s1)) s1
      in stop_anim G cancel s2)"

text \<open>\<^verbatim>\<open>finish()\<close>: skip to the end of the current animation.\<close>

definition finish :: "'n globals \<Rightarrow> 'n spring \<Rightarrow> 'n spring" where
  "finish G s =
     (if is_animating s then
        (let to = anim_to (anim s);
             cfg = anim_config (anim s);
             s1 = onStart_call s;
             s2 = (if \<not> decay_truthy (num G) (decay cfg) then set_value G to True s1 else s1)
         in stop_anim G False s2)
      else s)"






subsection \<open>\<^verbatim>\<open>advance\<close> and the read-only accessors\<close>

fun nth_opt :: "'a list \<Rightarrow> nat \<Rightarrow> 'a option" where
  "nth_opt xs i = (if i < length xs then Some (xs ! i) else None)"

text \<open>
  The \<^verbatim>\<open>forEach\<close> over \<^verbatim>\<open>anim.values\<close>, from index \<open>i\<close> on.  The result is the heap and
  the flags \<open>busy\<close> (the source's \<^verbatim>\<open>!idle\<close>) and \<open>changed\<close>.  \<open>None\<close>: a channel left the
  model (see \<open>advance_channel\<close>), or the parent's payload is shorter than the list of
  channels, where the source throws a \<^verbatim>\<open>TypeError\<close>.
\<close>

fun advance_nodes ::
  "'n arith \<Rightarrow> 'n config \<Rightarrow> bool \<Rightarrow> 'n \<Rightarrow> ('n \<times> bool) list option \<Rightarrow> 'n scalar list option
     \<Rightarrow> 'n list \<Rightarrow> nat \<Rightarrow> ref list \<Rightarrow> (ref \<Rightarrow> 'n anode)
     \<Rightarrow> ((ref \<Rightarrow> 'n anode) \<times> bool \<times> bool) option"
where
  "advance_nodes A cfg imm dt payload toVals fromVals i [] h = Some (h, False, False)"
| "advance_nodes A cfg imm dt payload toVals fromVals i (r # rs) h =
     (let nd = h r;
          parent = (case payload of None \<Rightarrow> None | Some ps \<Rightarrow> nth_opt ps i);
          to = (if kind nd = NString then Some (SNum (n_lit A 1))
                else case payload of
                       Some ps \<Rightarrow> map_option (\<lambda>p. SNum (fst p)) parent
                     | None \<Rightarrow> (case toVals of None \<Rightarrow> None | Some tv \<Rightarrow> nth_opt tv i))
      in if \<not> ndone nd \<and> payload \<noteq> None \<and> parent = None then None
         else
           (case advance_channel A cfg imm dt i to (nth_opt fromVals i) (map_option snd parent)
                   nd of
              None \<Rightarrow> None
            | Some (nd', busy, ch) \<Rightarrow>
                (case advance_nodes A cfg imm dt payload toVals fromVals (Suc i) rs
                        (h(r := nd')) of
                   None \<Rightarrow> None
                 | Some (h', busy', ch') \<Rightarrow> Some (h', busy \<or> busy', ch \<or> ch'))))"

text \<open>\<^verbatim>\<open>advance(dt)\<close>: advance the current animation by a number of milliseconds.\<close>

definition advance :: "'n globals \<Rightarrow> 'n \<Rightarrow> 'n spring \<Rightarrow> 'n spring option" where
  "advance G dt s =
     (let an = anim s;
          payload = (case anim_to an of
                       Fluid f \<Rightarrow> map_option snd (fl_animated f)
                     | _ \<Rightarrow> None);
          toVals = (if payload = None
                    then (case getFluidConfig (anim_to an) of
                            Some f \<Rightarrow> Some (toArray (fl_value f))
                          | None \<Rightarrow> toValues an)
                    else toValues an)
      in case advance_nodes (num G) (anim_config an) (immediate an) dt payload toVals
                (fromValues an) 0 (anim_values an) (heap s) of
           None \<Rightarrow> None
         | Some (h, busy, ch) \<Rightarrow>
             (let s1 = s\<lparr>heap := h\<rparr>
              in Some (if \<not> busy then finish G s1
                       else if ch then onChange_call (get G s1) False s1
                       else s1)))"

text \<open>The accessor \<^verbatim>\<open>idle\<close>: true when not advancing on each frame.\<close>

definition idle :: "'n spring \<Rightarrow> bool" where
  "idle s = (\<not> (is_animating s \<or> asyncTo (rstate s) \<noteq> None) \<or> is_paused s)"

section \<open>Updates: \<^verbatim>\<open>_prepareNode\<close>, \<^verbatim>\<open>_update\<close> and \<^verbatim>\<open>_merge\<close>\<close>

text \<open>
  The \<^verbatim>\<open>to\<close> prop of an update, already looked up under the key of the value: absent, a
  value, a \<^verbatim>\<open>FluidValue\<close>, or an async \<^verbatim>\<open>to\<close> (a function or a chain of updates, opaque
  here and known by a number).
\<close>

datatype 'n to_prop = ToUndef | ToValue "'n val" | ToFluid "'n fluid" | ToAsync nat

text \<open>
  The props of one update that \<^verbatim>\<open>_update\<close> and \<^verbatim>\<open>_merge\<close> read, each already resolved
  for the key of the value (\<^verbatim>\<open>matchProp\<close>, \<^verbatim>\<open>resolveProp\<close>).  \<open>p_config\<close> is the
  \<^verbatim>\<open>config\<close> prop as the change that \<^verbatim>\<open>mergeConfig\<close> (not under \<^verbatim>\<open>src/\<close>) makes with it
  to the configuration of the animation.  \<open>p_callId\<close> and \<open>p_cancel\<close> are what
  \<^verbatim>\<open>scheduleProps\<close> passes on to \<^verbatim>\<open>_merge\<close>.  The props \<^verbatim>\<open>delay\<close>, \<^verbatim>\<open>pause\<close> and
  \<^verbatim>\<open>loop\<close> are consumed by \<^verbatim>\<open>scheduleProps\<close> and by the promise chain of \<^verbatim>\<open>_update\<close>, which
  are outside this model.
\<close>

record 'n props =
  p_to :: "'n to_prop"
  p_from :: "'n target"
  p_config :: "('n config \<Rightarrow> 'n config) option"
  p_reset :: "bool option"
  p_cancel :: bool
  p_immediate :: "bool option"
  p_default :: bool
  p_reverse :: bool
  p_onProps :: "nat option"
  p_onDelayEnd :: "nat option"
  p_onStart :: "nat option"
  p_onChange :: "nat option"
  p_onPause :: "nat option"
  p_onResume :: "nat option"
  p_onRest :: "nat option"
  p_callId :: nat

text \<open>An \<^verbatim>\<open>AnimationRange\<close>.\<close>

record 'n range =
  r_to :: "'n target"
  r_from :: "'n target"

datatype error = FrozenError | TypeMismatch ntype ntype

text \<open>\<^verbatim>\<open>isAsyncTo(props.to)\<close>.\<close>

fun isAsyncTo :: "'n to_prop \<Rightarrow> bool" where
  "isAsyncTo (ToAsync k) = True"
| "isAsyncTo _ = False"

text \<open>The \<^verbatim>\<open>to\<close> of the range: \<^verbatim>\<open>undefined\<close> when the prop is absent or async.\<close>

fun range_to :: "'n to_prop \<Rightarrow> 'n target" where
  "range_to (ToValue v) = Plain v"
| "range_to (ToFluid f) = Fluid f"
| "range_to _ = Und"

text \<open>\<^verbatim>\<open>resolveEventProp(defaultProps, props, prop, key)\<close>: the prop of the update, else the
  default.\<close>

fun resolveEventProp :: "nat option \<Rightarrow> nat option \<Rightarrow> nat option" where
  "resolveEventProp dflt (Some h) = Some h"
| "resolveEventProp dflt None = dflt"

text \<open>
  Modelled from the spec: \<^verbatim>\<open>mergeDefaultProps\<close> (\<^verbatim>\<open>helpers\<close>) is not under \<^verbatim>\<open>src/\<close>.  A
  default update stores each of its defined default-able props as the new default.
\<close>

definition mergeDefaultProps :: "default_props \<Rightarrow> 'n props \<Rightarrow> default_props" where
  "mergeDefaultProps d p =
     \<lparr>d_immediate = (case p_immediate p of Some b \<Rightarrow> Some b | None \<Rightarrow> d_immediate d),
      d_onProps = resolveEventProp (d_onProps d) (p_onProps p),
      d_onDelayEnd = resolveEventProp (d_onDelayEnd d) (p_onDelayEnd p),
      d_onStart = resolveEventProp (d_onStart d) (p_onStart p),
      d_onChange = resolveEventProp (d_onChange d) (p_onChange p),
      d_onPause = resolveEventProp (d_onPause d) (p_onPause p),
      d_onResume = resolveEventProp (d_onResume d) (p_onResume p),
      d_onRest = resolveEventProp (d_onRest d) (p_onRest p)\<rparr>"

text \<open>\<^verbatim>\<open>resolve(result)\<close>: the deferred result of update \<open>callId\<close> is settled.\<close>

definition resolve :: "nat \<Rightarrow> 'n result \<Rightarrow> 'n spring \<Rightarrow> 'n spring" where
  "resolve callId r s = emit (Fire (Resolver callId) r) s"

text \<open>\<^verbatim>\<open>_prepareNode(props)\<close>: parse the range, and before the value has ever animated
  keep the node in sync with the \<^verbatim>\<open>from\<close> prop.\<close>

definition prepareNode :: "'n globals \<Rightarrow> 'n props \<Rightarrow> 'n spring \<Rightarrow> 'n range \<times> 'n spring" where
  "prepareNode G p s =
     (let to = range_to (p_to p);
          from = p_from p;
          rng = \<lparr>r_to = to, r_from = from\<rparr>
      in if \<not> has_animated s then
           (let to' = (if p_reverse p then from else to);
                from' = (if p_reverse p then to else from)
            in case getFluidValue from' of
                 Some fv \<Rightarrow> (rng, set_value G (Plain fv) False s)
               | None \<Rightarrow> if node s = None then (rng, set_value G to' False s) else (rng, s))
         else (rng, s))"

text \<open>
  The synchronous part of \<^verbatim>\<open>_update(props)\<close>, up to the call of \<^verbatim>\<open>scheduleProps\<close>: the
  \<^verbatim>\<open>onProps\<close> call, \<^verbatim>\<open>_prepareNode\<close>, the frozen check and the new \<^verbatim>\<open>callId\<close>.  The
  result is the state and either the error thrown or the range and the \<^verbatim>\<open>callId\<close> that
  \<^verbatim>\<open>scheduleProps\<close> will hand to \<^verbatim>\<open>_merge\<close>.
\<close>

definition update_sync :: "'n globals \<Rightarrow> 'n props \<Rightarrow> 'n spring \<Rightarrow> 'n spring \<times> (error + 'n range \<times> nat)" where
  "update_sync G p s =
     (let s1 = callProp (resolveEventProp (d_onProps (defaultProps s)) (p_onProps p)) CallOnProps s;
          (rng, s2) = prepareNode G p s1
      in if frozen s2 then (s2, Inl FrozenError)
         else (let s3 = s2\<lparr>lastCallId := Suc (lastCallId s2)\<rparr>
               in (s3, Inr (rng, lastCallId s3))))"

subsection \<open>\<^verbatim>\<open>_merge\<close>\<close>

text \<open>
  \<^verbatim>\<open>_merge\<close> is modelled in four parts that follow the source from top to bottom.
  Each part either ends the call (\<open>Return\<close>: the method returns; \<open>Throw\<close>: it throws,
  and the state keeps what was written before) or hands the local variables that the
  rest of the method reads to the next part.
\<close>

datatype ('n, 'a) flow = Return "'n spring" | Throw error "'n spring" | Continue 'a "'n spring"

text \<open>The locals after the first part: the range in effect and what has changed.\<close>

record 'n ctx =
  c_to :: "'n target"
  c_from :: "'n val option"
  c_prevTo :: "'n target"
  c_hasFromProp :: bool
  c_hasToChanged :: bool
  c_hasFromChanged :: bool
  c_decay :: "'n decay"
  c_velocity :: "'n velocity"

text \<open>The locals after the second part: the decision.\<close>

record 'n decision =
  m_reset :: bool
  m_value :: "'n val option"
  m_goal :: "'n val option"
  m_immediate :: bool
  m_started :: bool
  m_finished :: bool

definition set_anim_config :: "'n config \<Rightarrow> 'n spring \<Rightarrow> 'n spring" where
  "set_anim_config c s = s\<lparr>anim := (anim s)\<lparr>anim_config := c\<rparr>\<rparr>"

text \<open>
  First part: the \<^verbatim>\<open>cancel\<close> prop, the precedence rule on \<^verbatim>\<open>callId\<close>, \<^verbatim>\<open>onDelayEnd\<close>,
  the default props, the range with its \<^verbatim>\<open>reverse\<close> flip, and the \<^verbatim>\<open>config\<close> prop.
\<close>

definition merge_head :: "'n globals \<Rightarrow> 'n range \<Rightarrow> 'n props \<Rightarrow> 'n spring \<Rightarrow> ('n, 'n ctx) flow" where
  "merge_head G rng p s =
     (if p_cancel p then
        (let s1 = stop G True s in Return (resolve (p_callId p) (Cancelled (get G s1)) s1))
      else
        (let hasToProp = (r_to rng \<noteq> Und);
             hasFromProp = (r_from rng \<noteq> Und)
         in if (hasToProp \<or> hasFromProp) \<and> \<not> (p_callId p > lastToId s)
            then Return (resolve (p_callId p) (Cancelled (get G s)) s)
            else
              (let s1 = (if hasToProp \<or> hasFromProp then s\<lparr>lastToId := p_callId p\<rparr> else s);
                   s2 = callProp (resolveEventProp (d_onDelayEnd (defaultProps s1)) (p_onDelayEnd p))
                          CallOnDelayEnd s1;
                   s3 = (if p_default p
                         then s2\<lparr>defaultProps := mergeDefaultProps (defaultProps s2) p\<rparr> else s2);
                   prevTo = anim_to (anim s3);
                   prevFrom = anim_from (anim s3);
                   to0 = (if r_to rng = Und then prevTo else r_to rng);
                   from0 = (if r_from rng = Und then prevFrom else r_from rng);
                   to1 = (if hasFromProp \<and> \<not> hasToProp \<and> (\<not> p_default p \<or> to0 = Und)
                          then from0 else to0);
                   to = (if p_reverse p then from0 else to1);
                   from = (if p_reverse p then to1 else from0);
                   hasFromChanged = (\<not> isEqual (num G) from prevFrom);
                   s4 = (if hasFromChanged then s3\<lparr>anim := (anim s3)\<lparr>anim_from := from\<rparr>\<rparr> else s3);
                   hasToChanged = (\<not> isEqual (num G) to prevTo);
                   s5 = (if hasToChanged then focus G to s4 else s4);
                   cfg0 = anim_config (anim s5);
                   s6 = (case p_config p of
                           Some f \<Rightarrow> if \<not> isAsyncTo (p_to p) then set_anim_config (f cfg0) s5 else s5
                         | None \<Rightarrow> s5)
               in Continue
                    \<lparr>c_to = to, c_from = getFluidValue from, c_prevTo = prevTo,
                     c_hasFromProp = hasFromProp, c_hasToChanged = hasToChanged,
                     c_hasFromChanged = hasFromChanged, c_decay = decay cfg0,
                     c_velocity = velocity cfg0\<rparr> s6)))"

fun isAnimatable :: "'n globals \<Rightarrow> 'n val option \<Rightarrow> bool" where
  "isAnimatable G (Some (Num x)) = True"
| "isAnimatable G (Some (Arr xs)) = True"
| "isAnimatable G (Some (Str str)) = isAnimatedString G str"
| "isAnimatable G None = False"

text \<open>\<^verbatim>\<open>matchProp(defaultProps.immediate || props.immediate, key)\<close>.\<close>

definition immediate_prop :: "default_props \<Rightarrow> 'n props \<Rightarrow> bool" where
  "immediate_prop d p = (if d_immediate d = Some True then True else p_immediate p = Some True)"

text \<open>
  Second part: the node check, \<^verbatim>\<open>reset\<close>, the starting value, the goal, \<^verbatim>\<open>immediate\<close>,
  the check of the node type, and the first values of \<^verbatim>\<open>started\<close> and \<^verbatim>\<open>finished\<close>.
\<close>

definition merge_decide :: "'n globals \<Rightarrow> 'n props \<Rightarrow> 'n ctx \<Rightarrow> 'n spring \<Rightarrow> ('n, 'n decision) flow" where
  "merge_decide G p c s =
     (case node s of
        None \<Rightarrow> Return (resolve (p_callId p) (Finished (get G s) True) s)
      | Some nd \<Rightarrow>
          if c_to c = Und then Return (resolve (p_callId p) (Finished (get G s) True) s)
          else
            (let hasAsyncTo = isAsyncTo (p_to p);
                 reset = (case p_reset p of
                            None \<Rightarrow> c_hasFromProp c \<and> \<not> p_default p
                          | Some b \<Rightarrow> c_from c \<noteq> None \<and> b);
                 val = (if reset then c_from c else get G s);
                 goal = computeGoal G (c_to c);
                 imm = (\<not> hasAsyncTo \<and> (\<not> isAnimatable G goal \<or> immediate_prop (defaultProps s) p));
                 nodeType = getAnimatedType G (c_to c);
                 mismatch = (c_hasToChanged c \<and> nodeType \<noteq> node_type nd)
             in if mismatch \<and> \<not> imm then Throw (TypeMismatch (node_type nd) nodeType) s
                else
                  (let s1 = (if mismatch then set_value G (target_of goal) False s else s);
                       started0 = (getFluidConfig (c_to c) \<noteq> None);
                       hasValueChanged = (reset \<or> (\<not> has_animated s1 \<and> c_hasFromChanged c));
                       finished = (\<not> started0 \<and> (c_hasToChanged c \<or> hasValueChanged)
                                   \<and> isEqual (num G)
                                         (target_of (map_option (computeGoal_val G) val))
                                         (target_of goal));
                       started1 = (if started0 then True
                                   else if c_hasToChanged c \<or> hasValueChanged then \<not> finished
                                   else False);
                       cfg = anim_config (anim s1);
                       started = (started1 \<or> (\<not> started0 \<and>
                                    (\<not> decay_eq (num G) (decay cfg) (c_decay c)
                                     \<or> \<not> velocity_eq (num G) (velocity cfg) (c_velocity c))))
                   in Continue
                        \<lparr>m_reset = reset, m_value = val, m_goal = goal, m_immediate = imm,
                         m_started = started, m_finished = finished\<rparr> s1)))"







text \<open>The result with which update \<open>callId\<close> has been settled so far, if any.\<close>

definition resolved :: "nat \<Rightarrow> 'n spring \<Rightarrow> 'n result option" where
  "resolved callId s =
     (case filter (\<lambda>e. case e of Fire (Resolver k) r \<Rightarrow> k = callId | _ \<Rightarrow> False) (log s) of
        [] \<Rightarrow> None
      | e # es \<Rightarrow> (case e of Fire h r \<Rightarrow> Some r | _ \<Rightarrow> None))"

section \<open>The behaviour the specification describes\<close>

text \<open>
  The definitions of this section follow the words of the specification, not the source;
  the counterexamples below compare them with the source's functions.
\<close>











section \<open>Example data\<close>

text \<open>The library's default spring (tension 170, friction 26, mass 1, linear easing), in
  the arithmetic of the reals.\<close>

definition default_config :: "real config" where
  "default_config =
     \<lparr>tension = 170, friction = 26, mass = 1, velocity = VelNum 0, clamp = False,
      bounce = None, duration = None, easing = (\<lambda>t. t), decay = DecayUndef,
      precision = None, restVelocity = None, round_step = None, progress = None\<rparr>"

text \<open>A numeric channel at position \<open>x\<close> that has just been reset for an animation.\<close>

definition fresh_node :: "real \<Rightarrow> real anode" where
  "fresh_node x = (new_value_node ideal (SNum x))\<lparr>ndone := False\<rparr>"

text \<open>The field initialisers of \<^verbatim>\<open>SpringValue\<close> and of its \<^verbatim>\<open>Animation\<close>: nothing is
  animating, no node exists yet, no update has been scheduled.\<close>

definition init_animation :: "real animation" where
  "init_animation =
     \<lparr>changed = False, anim_values = [], toValues = None, fromValues = [],
      anim_to = Und, anim_from = Und, anim_config = default_config, immediate = False,
      onStart = None, onChange = None, onPause = None, onResume = None, onRest = []\<rparr>"

definition init_spring :: "real spring" where
  "init_spring =
     \<lparr>anim = init_animation, node = None, heap = (\<lambda>r. new_value_node ideal (SNum 0)),
      next_ref = 0, has_animated = False, is_animating = False, is_paused = False,
      rstate = \<lparr>paused = False, asyncTo = None, cancelId = None, timeouts = [],
                pauseQueue = [], resumeQueue = []\<rparr>,
      defaultProps = \<lparr>d_immediate = None, d_onProps = None, d_onDelayEnd = None,
                      d_onStart = None, d_onChange = None, d_onPause = None,
                      d_onResume = None, d_onRest = None\<rparr>,
      lastCallId = 0, lastToId = 0, frozen = False, log = []\<rparr>"

definition example_globals :: "real globals" where
  "example_globals =
     \<lparr>skipAnimation = False, colorNames = [], interpolate = (\<lambda>(a, b) t. b), num = ideal\<rparr>"

text \<open>A numeric value at \<open>x\<close> in the middle of an animation towards \<open>goal\<close>, with one
  completion callback and the resolver of update 1 waiting in the \<^verbatim>\<open>onRest\<close> queue.\<close>

definition running_spring :: "real \<Rightarrow> real \<Rightarrow> real spring" where
  "running_spring x goal =
     init_spring
       \<lparr>anim := init_animation
          \<lparr>changed := True, anim_values := [0], toValues := Some [SNum goal],
           fromValues := [0], anim_to := Plain (Num goal), onStart := Some 7,
           onRest := [RChecked (Prop 8) (Plain (Num goal)),
                      RChecked (Resolver 1) (Plain (Num goal))]\<rparr>,
        node := Some (AValue 0),
        heap := (\<lambda>r. fresh_node x),
        next_ref := 1, has_animated := True, is_animating := True,
        lastCallId := 1, lastToId := 1\<rparr>"

text \<open>A running value whose spring is loose (tension 0) and not immediate.\<close>

definition loose_spring :: "real spring" where
  "loose_spring = (running_spring 0 1)\<lparr>anim := (anim (running_spring 0 1))
      \<lparr>anim_config := default_config\<lparr>tension := 0\<rparr>\<rparr>\<rparr>"



section \<open>Notions used in the statements about updates\<close>


text \<open>The entries that a stop notifies: the whole \<^verbatim>\<open>onRest\<close> queue, except that the
  \<^verbatim>\<open>onRest\<close> prop in front is not called for an animation that never changed the value.\<close>

definition pending_rest :: "'n spring \<Rightarrow> 'n rest_fn list" where
  "pending_rest s =
     (case onRest (anim s) of
        [] \<Rightarrow> []
      | q0 # qs \<Rightarrow> (if changed (anim s) then q0 else RNoop) # qs)"

text \<open>The fields that only \<^verbatim>\<open>_update\<close> and \<^verbatim>\<open>_merge\<close> themselves write.\<close>

definition ids :: "'n spring \<Rightarrow> nat \<times> nat \<times> bool \<times> default_props \<times> bool" where
  "ids s = (lastCallId s, lastToId s, frozen s, defaultProps s, is_paused s)"

text \<open>The decision that \<^verbatim>\<open>_merge\<close> computes for an update, when it gets that far.\<close>

definition merge_decision ::
  "'n globals \<Rightarrow> 'n range \<Rightarrow> 'n props \<Rightarrow> 'n spring \<Rightarrow> 'n decision option" where
  "merge_decision G rng p s =
     (case merge_head G rng p s of
        Continue c s1 \<Rightarrow>
          (case merge_decide G p c s1 of Continue d s2 \<Rightarrow> Some d | _ \<Rightarrow> None)
      | _ \<Rightarrow> None)"

section \<open>Properties of the integrator\<close>

lemmas ex_defs = running_spring_def init_spring_def init_animation_def default_config_def
  fresh_node_def new_value_node_def example_globals_def ideal_def of_rat_divide


lemmas adv_defs = advance_def advance_channel_def settle_channel_def finish_def stop_anim_def
  set_value_def onStart_call_def onChange_call_def get_def node_getValue_def emit_def



















text \<open>
  Claim C9 fails on the code.  The value \<open>loose_spring\<close> is animating, not immediate, at
  0 with the goal 1, and its tension is 0.  The channel loop of \<^verbatim>\<open>advance(16)\<close> marks the
  channel done without moving it, as the comment "Loose springs never move" says; then
  every channel is done, \<^verbatim>\<open>advance\<close> calls \<^verbatim>\<open>finish()\<close>, and \<^verbatim>\<open>finish()\<close> sets the value
  to the goal: the position goes from 0 to 1 and the animation ends.
\<close>

theorem loose_spring_snaps:
  "n_le ideal (tension (anim_config (anim loose_spring))) (n_lit ideal 0)
   \<and> \<not> immediate (anim loose_spring)
   \<and> is_animating loose_spring
   \<and> lastPosition (heap loose_spring 0) = 0
   \<and> get example_globals loose_spring = Some (Num 0)
   \<and> map_option (\<lambda>s'. (lastPosition (heap s' 0), get example_globals s', is_animating s'))
        (advance example_globals 16 loose_spring) = Some (1, Some (Num 1), False)"
  by (simp add: loose_spring_def ex_defs adv_defs Let_def)

text \<open>
  Claim C10.  The accessor \<^verbatim>\<open>idle\<close> is true whenever the value is paused, also while an
  unfinished animation or an async \<^verbatim>\<open>to\<close> is in flight; it is false exactly when the value
  is animating or has an active async \<^verbatim>\<open>to\<close>, and is not paused.
\<close>

theorem idle_iff:
  "(is_paused s \<longrightarrow> idle s)
   \<and> (\<not> idle s \<longleftrightarrow> (is_animating s \<or> asyncTo (rstate s) \<noteq> None) \<and> \<not> is_paused s)"
  by (auto simp: idle_def)

theorem idle_iff_witness:
  "is_paused (running_spring 0 1\<lparr>is_paused := True\<rparr>)
   \<and> is_animating (running_spring 0 1\<lparr>is_paused := True\<rparr>)
   \<and> idle (running_spring 0 1\<lparr>is_paused := True\<rparr>)
   \<and> \<not> idle (running_spring 0 1)"
  using idle_iff[of "running_spring 0 1\<lparr>is_paused := True\<rparr>"] idle_iff[of "running_spring 0 1"]
  by (simp add: ex_defs)

section \<open>Properties of updates\<close>

lemma emit_frame [simp]:
  "anim (emit e s) = anim s" "node (emit e s) = node s" "heap (emit e s) = heap s"
  "next_ref (emit e s) = next_ref s" "has_animated (emit e s) = has_animated s"
  "is_animating (emit e s) = is_animating s" "is_paused (emit e s) = is_paused s"
  "rstate (emit e s) = rstate s" "defaultProps (emit e s) = defaultProps s"
  "lastCallId (emit e s) = lastCallId s" "lastToId (emit e s) = lastToId s"
  "frozen (emit e s) = frozen s" "log (emit e s) = log s @ [e]"
  by (simp_all add: emit_def)

lemma callProp_frame [simp]:
  "anim (callProp h mk s) = anim s" "node (callProp h mk s) = node s"
  "heap (callProp h mk s) = heap s" "next_ref (callProp h mk s) = next_ref s"
  "has_animated (callProp h mk s) = has_animated s"
  "is_animating (callProp h mk s) = is_animating s" "is_paused (callProp h mk s) = is_paused s"
  "rstate (callProp h mk s) = rstate s" "defaultProps (callProp h mk s) = defaultProps s"
  "lastCallId (callProp h mk s) = lastCallId s" "lastToId (callProp h mk s) = lastToId s"
  "frozen (callProp h mk s) = frozen s"
  by (cases h; simp)+

lemma callProp_log:
  "log (callProp h mk s) = log s @ (case h of None \<Rightarrow> [] | Some k \<Rightarrow> [mk k])"
  by (cases h) simp_all

lemma get_cong: "node s' = node s \<Longrightarrow> heap s' = heap s \<Longrightarrow> get G s' = get G s"
  by (auto simp: get_def split: option.splits animated.splits)

lemma get_emit [simp]: "get G (emit e s) = get G s"
  by (rule get_cong) simp_all

lemma get_callProp [simp]: "get G (callProp h mk s) = get G s"
  by (rule get_cong) simp_all

lemma resolve_frame [simp]:
  "anim (resolve k r s) = anim s" "node (resolve k r s) = node s" "heap (resolve k r s) = heap s"
  "next_ref (resolve k r s) = next_ref s"
  "has_animated (resolve k r s) = has_animated s"
  "is_animating (resolve k r s) = is_animating s" "is_paused (resolve k r s) = is_paused s"
  "rstate (resolve k r s) = rstate s" "defaultProps (resolve k r s) = defaultProps s"
  "lastCallId (resolve k r s) = lastCallId s" "lastToId (resolve k r s) = lastToId s"
  "frozen (resolve k r s) = frozen s"
  "log (resolve k r s) = log s @ [Fire (Resolver k) r]"
  by (simp_all add: resolve_def)

lemma get_resolve [simp]: "get G (resolve k r s) = get G s"
  by (simp add: resolve_def)

lemma get_update [simp]:
  "get G (s\<lparr>rstate := r\<rparr>) = get G s" "get G (s\<lparr>anim := a\<rparr>) = get G s"
  "get G (s\<lparr>is_animating := b\<rparr>) = get G s" "get G (s\<lparr>log := l\<rparr>) = get G s"
  "get G (s\<lparr>lastToId := k\<rparr>) = get G s" "get G (s\<lparr>defaultProps := d\<rparr>) = get G s"
  "get G (s\<lparr>has_animated := b\<rparr>) = get G s" "get G (s\<lparr>lastCallId := k\<rparr>) = get G s"
  by (rule get_cong; simp)+

lemma ids_update [simp]:
  "ids (s\<lparr>anim := a\<rparr>) = ids s" "ids (s\<lparr>heap := h\<rparr>) = ids s"
  "ids (s\<lparr>is_animating := b\<rparr>) = ids s" "ids (s\<lparr>log := l\<rparr>) = ids s"
  "ids (s\<lparr>node := n\<rparr>) = ids s" "ids (s\<lparr>next_ref := k\<rparr>) = ids s"
  "ids (s\<lparr>rstate := r\<rparr>) = ids s" "ids (s\<lparr>has_animated := b\<rparr>) = ids s"
  "ids (emit e s) = ids s" "ids (callProp ho mk s) = ids s" "ids (resolve k res s) = ids s"
  by (simp_all add: ids_def)

lemma node_getValue_done [simp]: "node_getValue G (n\<lparr>ndone := b\<rparr>) = node_getValue G n"
  by (simp add: node_getValue_def split: nkind.splits option.splits)

lemma mark_done_apply:
  "mark_done rs h r = (if r \<in> set rs then (h r)\<lparr>ndone := True\<rparr> else h r)"
  by (induction rs arbitrary: h) auto

lemma get_mark_done:
  "node s' = node s \<Longrightarrow> heap s' = mark_done rs (heap s) \<Longrightarrow> get G s' = get G s"
  by (auto simp: get_def mark_done_apply split: option.splits animated.splits)

lemma call_rest_shape: "\<exists>es. call_rest G c f s = s\<lparr>log := log s @ es\<rparr>"
proof (cases f)
  case RNoop
  then show ?thesis by (intro exI[of _ "[]"]) simp
next
  case (RChecked h t)
  then show ?thesis by (cases c) (auto simp: emit_def Let_def)
qed

lemma call_rests_shape: "\<exists>es. call_rests G c fs s = s\<lparr>log := log s @ es\<rparr>"
proof (induction fs arbitrary: s)
  case Nil
  then show ?case by (intro exI[of _ "[]"]) simp
next
  case (Cons f fs)
  obtain es where e1: "call_rest G c f s = s\<lparr>log := log s @ es\<rparr>"
    using call_rest_shape by blast
  obtain es' where e2: "call_rests G c fs (s\<lparr>log := log s @ es\<rparr>)
      = (s\<lparr>log := log s @ es\<rparr>)\<lparr>log := log (s\<lparr>log := log s @ es\<rparr>) @ es'\<rparr>"
    using Cons.IH by blast
  show ?case
    by (intro exI[of _ "es @ es'"]) (simp add: e1 e2)
qed

lemma call_rests_frame [simp]:
  "anim (call_rests G c fs s) = anim s" "node (call_rests G c fs s) = node s"
  "heap (call_rests G c fs s) = heap s" "next_ref (call_rests G c fs s) = next_ref s"
  "has_animated (call_rests G c fs s) = has_animated s"
  "is_animating (call_rests G c fs s) = is_animating s"
  "rstate (call_rests G c fs s) = rstate s" "ids (call_rests G c fs s) = ids s"
  using call_rests_shape[of G c fs s] by (auto simp: ids_def)

lemma get_call_rests [simp]: "get G (call_rests G c fs s) = get G s"
  by (rule get_cong) simp_all


lemma stop_anim_frame [simp]:
  "node (stop_anim G c s) = node s" "has_animated (stop_anim G c s) = has_animated s"
  "rstate (stop_anim G c s) = rstate s" "ids (stop_anim G c s) = ids s"
  "next_ref (stop_anim G c s) = next_ref s"
  "anim_to (anim (stop_anim G c s)) = anim_to (anim s)"
  "anim_from (anim (stop_anim G c s)) = anim_from (anim s)"
  "anim_config (anim (stop_anim G c s)) = anim_config (anim s)"
  "changed (anim (stop_anim G c s)) = changed (anim s)"
  "immediate (anim (stop_anim G c s)) = immediate (anim s)"
  "\<not> is_animating (stop_anim G c s)"
  by (auto simp: stop_anim_def Let_def split: list.splits)

lemma get_stop_anim [simp]: "get G (stop_anim G c s) = get G s"
  by (rule get_mark_done[where rs = "if is_animating s then anim_values (anim s) else []"])
     (auto simp: stop_anim_def Let_def split: list.splits)

lemma stop_anim_idle [simp]: "\<not> is_animating s \<Longrightarrow> stop_anim G c s = s"
  by (simp add: stop_anim_def)


lemma focus_frame [simp]:
  "node (focus G t s) = node s" "heap (focus G t s) = heap s"
  "next_ref (focus G t s) = next_ref s"
  "has_animated (focus G t s) = has_animated s" "is_animating (focus G t s) = is_animating s"
  "rstate (focus G t s) = rstate s" "ids (focus G t s) = ids s" "log (focus G t s) = log s"
  "onRest (anim (focus G t s)) = onRest (anim s)"
  "changed (anim (focus G t s)) = changed (anim s)"
  "anim_values (anim (focus G t s)) = anim_values (anim s)"
  "toValues (anim (focus G t s)) = toValues (anim s)"
  "anim_config (anim (focus G t s)) = anim_config (anim s)"
  "anim_from (anim (focus G t s)) = anim_from (anim s)"
  "immediate (anim (focus G t s)) = immediate (anim s)"
  "lastToId (focus G t s) = lastToId s" "defaultProps (focus G t s) = defaultProps s"
  by (auto simp: focus_def)


lemma get_focus [simp]: "get G (focus G t s) = get G s"
  by (rule get_cong) simp_all

lemma pending_rest_focus [simp]: "pending_rest (focus G t s) = pending_rest s"
  by (simp add: pending_rest_def split: list.splits)




lemma pending_rest_rstate [simp]: "pending_rest (s\<lparr>rstate := r\<rparr>) = pending_rest s"
  by (simp add: pending_rest_def split: list.splits)





end
